theory Spec2Isabelle
  imports Complex_Main "HOL-Library.Word" "HOL-Library.Char_ord" "HOL-Library.List_Lexorder"
    "HOL-Library.Product_Lexorder" "HOL-Library.Multiset"
begin

unbundle bit_operations_syntax

section \<open>Conventions of the embedding\<close>

text \<open>
  The development embeds the scoring core of the disease-hallmarks package: the pathway
  normaliser (\<^verbatim>\<open>pathway_normalizer.py\<close>), the hallmark scorer
  (\<^verbatim>\<open>analysis.py\<close>), the lookup cache (\<^verbatim>\<open>cache.py\<close>), the hallmark classifier
  (\<^verbatim>\<open>pathway_agent.py\<close>) and the two API callers of \<^verbatim>\<open>api_callers.py\<close> that the
  scoring pipeline uses.

  Python floats are read as real numbers: \<^verbatim>\<open>math.log2\<close>, \<^verbatim>\<open>math.log10\<close> and
  \<^verbatim>\<open>math.sqrt\<close> are \<open>log 2\<close>, \<open>log 10\<close> and \<open>sqrt\<close>. Python strings are byte strings
  (gene symbols, hallmark names and cache keys are ASCII). A Python dictionary is an
  association list in insertion order whose keys are distinct; \<open>map_of\<close> is the lookup.
\<close>

section \<open>Pathway normaliser\<close>

text \<open>
  \<^verbatim>\<open>PathwayNormalizer.hallmark_pathway_counts\<close> is the table of tallies produced by a
  \<^verbatim>\<open>Counter\<close> over the annotation table, so its values are natural numbers.
\<close>

type_synonym hallmark_counts = "(string \<times> nat) list"

definition get_normalization_factor :: "hallmark_counts \<Rightarrow> string \<Rightarrow> real" where
  "get_normalization_factor hallmark_pathway_counts hallmark =
     (if hallmark_pathway_counts = [] \<or> map_of hallmark_pathway_counts hallmark = None then 1
      else
        let count = (case map_of hallmark_pathway_counts hallmark of None \<Rightarrow> 0 | Some c \<Rightarrow> c)
        in if count = 0 then 1
           else 1 / sqrt (log 2 (real (count + 1)) + 1))"

definition normalize_pathway_score :: "hallmark_counts \<Rightarrow> string \<Rightarrow> real \<Rightarrow> real" where
  "normalize_pathway_score hallmark_pathway_counts hallmark pathway_score =
     pathway_score * get_normalization_factor hallmark_pathway_counts hallmark"

section \<open>Hallmark scorer\<close>

record HallmarkScore =
  name :: string
  gene_overlap_score :: real
  pathway_score :: real
  total_score :: real
  overlapping_genes :: "string list"
  relevant_pathways :: "string list"

text \<open>
  The entry that the first pass of \<^verbatim>\<open>_calculate_hallmark_scores\<close> stores in
  \<^verbatim>\<open>raw_scores\<close> for one hallmark (a dictionary with these six keys in the source).
\<close>

record raw_score =
  gene_score :: real
  raw_pathway_score :: real
  raw_total :: real
  raw_overlapping_genes :: "string list"
  raw_relevant_pathways :: "string list"
  pathway_count :: nat

type_synonym enriched_pathways = "(string \<times> real) list"
type_synonym pathway_hallmarks = "(string \<times> string list) list"
type_synonym hallmark_genes = "(string \<times> string list) list"
type_synonym hallmark_scores = "(string \<times> HallmarkScore) list"

definition hallmark_name_mapping :: "(string \<times> string) list" where
  "hallmark_name_mapping =
     [(''Genomic_instability'', ''Genomic instability''),
      (''Telomere_attrition'', ''Telomere attrition''),
      (''Epigenetic_alterations'', ''Epigenetic alterations''),
      (''Loss_of_proteostasis'', ''Loss of proteostasis''),
      (''Disabled_macroautophagy'', ''Disabled macroautophagy''),
      (''Deregulated_nutrient_sensing'', ''Deregulated nutrient sensing''),
      (''Mitochondrial_dysfunction'', ''Mitochondrial dysfunction''),
      (''Cellular_senescence'', ''Cellular senescence''),
      (''Stem_cell_exhaustion'', ''Stem cell exhaustion''),
      (''Altered_intercellular_communication'', ''Altered intercellular communication''),
      (''Chronic_inflammation'', ''Chronic inflammation'')]"

text \<open>
  The search loop for \<^verbatim>\<open>agent_hallmark_name\<close>: the first agent name whose analysis name
  is the hallmark, \<open>None\<close> when the loop ends without a match.
\<close>

definition agent_hallmark_name_of :: "string \<Rightarrow> string option" where
  "agent_hallmark_name_of hallmark =
     map_option fst
       (find (\<lambda>(agent_name, analysis_name). analysis_name = hallmark) hallmark_name_mapping)"

text \<open>
  \<^verbatim>\<open>PathwayAnalysisAgent.analyze_pathways\<close> as the scorer sees it: one classification per
  key of the input dictionary, in the order of the keys. The classifier of the pass is the
  parameter \<open>classify\<close>.
\<close>

definition analyze_pathways :: "(string \<Rightarrow> string list) \<Rightarrow> enriched_pathways \<Rightarrow> pathway_hallmarks" where
  "analyze_pathways classify pathways = map (\<lambda>(pathway, p). (pathway, classify pathway)) pathways"

text \<open>
  \<^verbatim>\<open>enriched_pathways[pathway]\<close>. The scorer reads it only at keys of the classification
  result, which are keys of \<^verbatim>\<open>enriched_pathways\<close> (lemma \<open>analyze_pathways_keys\<close> below),
  so the lookup never misses there; the value given at a miss is never used.
\<close>

definition p_value_of :: "enriched_pathways \<Rightarrow> string \<Rightarrow> real" where
  "p_value_of enriched pathway = (case map_of enriched pathway of Some v \<Rightarrow> v | None \<Rightarrow> 0)"

definition pathway_weight :: "real \<Rightarrow> real" where
  "pathway_weight p_value = (if p_value > 0 then - log 10 p_value else 0)"

text \<open>
  \<^verbatim>\<open>agent_hallmark_name and agent_hallmark_name in hallmark_list\<close>: the name is present,
  not the empty string, and a member of the list.
\<close>

definition hallmark_in_list :: "string option \<Rightarrow> string list \<Rightarrow> bool" where
  "hallmark_in_list agent_hallmark_name hallmark_list =
     (case agent_hallmark_name of
        None \<Rightarrow> False
      | Some a \<Rightarrow> a \<noteq> [] \<and> a \<in> set hallmark_list)"

text \<open>
  The loop over \<^verbatim>\<open>pathway_hallmark_scores.items()\<close>; the accumulator holds
  \<^verbatim>\<open>pathway_score\<close>, \<^verbatim>\<open>pathway_count\<close> and \<^verbatim>\<open>relevant_pathways\<close>, in this order.
\<close>

fun pathway_loop ::
  "string option \<Rightarrow> enriched_pathways \<Rightarrow> pathway_hallmarks \<Rightarrow> real \<times> nat \<times> string list
     \<Rightarrow> real \<times> nat \<times> string list" where
  "pathway_loop agent_hallmark_name enriched [] acc = acc"
| "pathway_loop agent_hallmark_name enriched ((pathway, hallmark_list) # rest)
       (score_sum, n, pathways) =
     (if hallmark_in_list agent_hallmark_name hallmark_list then
        pathway_loop agent_hallmark_name enriched rest
          (score_sum + pathway_weight (p_value_of enriched pathway),
           n + 1,
           pathways @ [pathway])
      else
        pathway_loop agent_hallmark_name enriched rest (score_sum, n, pathways))"

text \<open>
  One iteration of the first pass. \<^verbatim>\<open>genes\<close> is the hallmark's reference set,
  \<^verbatim>\<open>set(...)\<close> of the list in \<^verbatim>\<open>hallmark_genes.py\<close>. \<^verbatim>\<open>list(overlapping)\<close> has no
  specified order in Python; the model lists it sorted.
\<close>

definition raw_score_of ::
  "hallmark_counts \<Rightarrow> string list \<Rightarrow> enriched_pathways \<Rightarrow> pathway_hallmarks \<Rightarrow> string
     \<Rightarrow> string list \<Rightarrow> raw_score" where
  "raw_score_of counts disease_genes enriched pathway_hallmark_scores hallmark gene_list =
     (let genes = set gene_list;
          overlapping = set disease_genes \<inter> genes;
          gene_score = (if genes \<noteq> {} then real (card overlapping) / real (card genes) else 0);
          agent_hallmark_name = agent_hallmark_name_of hallmark;
          (pathway_score, pathway_count, relevant_pathways) =
             pathway_loop agent_hallmark_name enriched pathway_hallmark_scores (0, 0, []);
          pathway_score =
            (if pathway_count > 0 then
               let avg_pathway_score = pathway_score / real pathway_count;
                   normalization_factor = get_normalization_factor counts hallmark;
                   pathway_score = avg_pathway_score * max normalization_factor 0.5;
                   pathway_bonus = min (log 2 (real (pathway_count + 1)) / 4) 1
               in pathway_score * (1 + pathway_bonus)
             else pathway_score);
          raw_total_score = gene_score * 0.3 + pathway_score * 0.7
      in \<lparr> gene_score = gene_score,
           raw_pathway_score = pathway_score,
           raw_total = raw_total_score,
           raw_overlapping_genes = sorted_list_of_set overlapping,
           raw_relevant_pathways = relevant_pathways,
           pathway_count = pathway_count \<rparr>)"

text \<open>One iteration of the second pass: the score object of a hallmark.\<close>

definition final_score :: "string \<Rightarrow> raw_score \<Rightarrow> HallmarkScore" where
  "final_score hallmark raw_data =
     (let pathway_diversity = sqrt (real (pathway_count raw_data + 1)) / sqrt 10;
          pathway_diversity = min pathway_diversity 1.5
      in \<lparr> name = hallmark,
           gene_overlap_score = gene_score raw_data,
           pathway_score = raw_pathway_score raw_data,
           total_score = raw_total raw_data * pathway_diversity,
           overlapping_genes = raw_overlapping_genes raw_data,
           relevant_pathways = raw_relevant_pathways raw_data \<rparr>)"

text \<open>
  The body of \<^verbatim>\<open>_calculate_hallmark_scores\<close> after the memo lookup. The diversity
  metrics between the two passes (entropy, coefficient of variation) are only printed and
  do not reach the result.
\<close>

definition compute_hallmark_scores ::
  "hallmark_counts \<Rightarrow> hallmark_genes \<Rightarrow> (string \<Rightarrow> string list) \<Rightarrow> string list
     \<Rightarrow> enriched_pathways \<Rightarrow> hallmark_scores" where
  "compute_hallmark_scores counts hallmark_genes classify disease_genes enriched =
     (let pathway_hallmark_scores = analyze_pathways classify enriched;
          raw_scores =
            map (\<lambda>(hallmark, gene_list).
                   (hallmark,
                    raw_score_of counts disease_genes enriched pathway_hallmark_scores
                      hallmark gene_list))
              hallmark_genes
      in map (\<lambda>(hallmark, raw_data). (hallmark, final_score hallmark raw_data)) raw_scores)"

text \<open>
  The analyser's state that the scorer reads and writes: the reference gene table, the
  normaliser's count table and the memo table \<^verbatim>\<open>_hallmark_score_cache\<close>, which does not
  exist (\<open>None\<close>) before the first call.
\<close>

type_synonym score_cache_key = "string list \<times> (string \<times> real) list"

record analyzer =
  hallmark_genes_table :: hallmark_genes
  normalizer_counts :: hallmark_counts
  hallmark_score_cache :: "(score_cache_key \<rightharpoonup> hallmark_scores) option"

definition score_cache_key_of :: "string list \<Rightarrow> enriched_pathways \<Rightarrow> score_cache_key" where
  "score_cache_key_of disease_genes enriched = (sort disease_genes, sort enriched)"

definition calculate_hallmark_scores ::
  "analyzer \<Rightarrow> (string \<Rightarrow> string list) \<Rightarrow> string list \<Rightarrow> enriched_pathways
     \<Rightarrow> hallmark_scores \<times> analyzer" where
  "calculate_hallmark_scores self classify disease_genes enriched =
     (let cache_key = score_cache_key_of disease_genes enriched
      in case (case hallmark_score_cache self of
                 Some cache \<Rightarrow> cache cache_key
               | None \<Rightarrow> None) of
           Some cached \<Rightarrow> (cached, self)
         | None \<Rightarrow>
             let cache = (case hallmark_score_cache self of
                            Some cache \<Rightarrow> cache
                          | None \<Rightarrow> Map.empty);
                 scores = compute_hallmark_scores (normalizer_counts self)
                            (hallmark_genes_table self) classify disease_genes enriched
             in (scores, self\<lparr>hallmark_score_cache := Some (cache(cache_key \<mapsto> scores))\<rparr>))"

section \<open>MD5 digest\<close>

text \<open>
  The cache names its files by \<^verbatim>\<open>hashlib.md5(key.encode()).hexdigest()\<close> and the
  enrichment caller puts the same digest of the gene list into its cache key.
  \<^verbatim>\<open>hashlib.md5\<close> is a library function; the definitions below follow RFC 1321. A row of
  \<open>md5_table\<close> is one of the 64 operations: the round (0 to 3), the index of the message
  word, the rotation and the sine constant.
\<close>

definition md5_table :: "(nat \<times> nat \<times> nat \<times> 32 word) list" where
  "md5_table =
     [
      (0, 0, 7, 0xd76aa478), (0, 1, 12, 0xe8c7b756),
      (0, 2, 17, 0x242070db), (0, 3, 22, 0xc1bdceee),
      (0, 4, 7, 0xf57c0faf), (0, 5, 12, 0x4787c62a),
      (0, 6, 17, 0xa8304613), (0, 7, 22, 0xfd469501),
      (0, 8, 7, 0x698098d8), (0, 9, 12, 0x8b44f7af),
      (0, 10, 17, 0xffff5bb1), (0, 11, 22, 0x895cd7be),
      (0, 12, 7, 0x6b901122), (0, 13, 12, 0xfd987193),
      (0, 14, 17, 0xa679438e), (0, 15, 22, 0x49b40821),
      (1, 1, 5, 0xf61e2562), (1, 6, 9, 0xc040b340),
      (1, 11, 14, 0x265e5a51), (1, 0, 20, 0xe9b6c7aa),
      (1, 5, 5, 0xd62f105d), (1, 10, 9, 0x02441453),
      (1, 15, 14, 0xd8a1e681), (1, 4, 20, 0xe7d3fbc8),
      (1, 9, 5, 0x21e1cde6), (1, 14, 9, 0xc33707d6),
      (1, 3, 14, 0xf4d50d87), (1, 8, 20, 0x455a14ed),
      (1, 13, 5, 0xa9e3e905), (1, 2, 9, 0xfcefa3f8),
      (1, 7, 14, 0x676f02d9), (1, 12, 20, 0x8d2a4c8a),
      (2, 5, 4, 0xfffa3942), (2, 8, 11, 0x8771f681),
      (2, 11, 16, 0x6d9d6122), (2, 14, 23, 0xfde5380c),
      (2, 1, 4, 0xa4beea44), (2, 4, 11, 0x4bdecfa9),
      (2, 7, 16, 0xf6bb4b60), (2, 10, 23, 0xbebfbc70),
      (2, 13, 4, 0x289b7ec6), (2, 0, 11, 0xeaa127fa),
      (2, 3, 16, 0xd4ef3085), (2, 6, 23, 0x04881d05),
      (2, 9, 4, 0xd9d4d039), (2, 12, 11, 0xe6db99e5),
      (2, 15, 16, 0x1fa27cf8), (2, 2, 23, 0xc4ac5665),
      (3, 0, 6, 0xf4292244), (3, 7, 10, 0x432aff97),
      (3, 14, 15, 0xab9423a7), (3, 5, 21, 0xfc93a039),
      (3, 12, 6, 0x655b59c3), (3, 3, 10, 0x8f0ccc92),
      (3, 10, 15, 0xffeff47d), (3, 1, 21, 0x85845dd1),
      (3, 8, 6, 0x6fa87e4f), (3, 15, 10, 0xfe2ce6e0),
      (3, 6, 15, 0xa3014314), (3, 13, 21, 0x4e0811a1),
      (3, 4, 6, 0xf7537e82), (3, 11, 10, 0xbd3af235),
      (3, 2, 15, 0x2ad7d2bb), (3, 9, 21, 0xeb86d391)]"

definition rotate_left :: "32 word \<Rightarrow> nat \<Rightarrow> 32 word" where
  "rotate_left x c = push_bit c x OR drop_bit (32 - c) x"

definition md5_step ::
  "32 word list \<Rightarrow> 32 word \<times> 32 word \<times> 32 word \<times> 32 word \<Rightarrow> nat \<times> nat \<times> nat \<times> 32 word
     \<Rightarrow> 32 word \<times> 32 word \<times> 32 word \<times> 32 word" where
  "md5_step m st row =
     (case (st, row) of ((a, b, c, d), (r, g, s, k)) \<Rightarrow>
        let f = (if r = 0 then (b AND c) OR (NOT b AND d)
                 else if r = 1 then (d AND b) OR (NOT d AND c)
                 else if r = 2 then b XOR c XOR d
                 else c XOR (b OR NOT d))
        in (d, b + rotate_left (f + a + k + m ! g) s, b, c))"

fun words_of_bytes :: "nat list \<Rightarrow> 32 word list" where
  "words_of_bytes (b0 # b1 # b2 # b3 # rest) =
     of_nat (b0 + 256 * b1 + 65536 * b2 + 16777216 * b3) # words_of_bytes rest"
| "words_of_bytes rest = []"

fun chunks_of :: "nat \<Rightarrow> nat \<Rightarrow> 'a list \<Rightarrow> 'a list list" where
  "chunks_of k 0 xs = []"
| "chunks_of k (Suc n) xs = take k xs # chunks_of k n (drop k xs)"

definition md5_block ::
  "32 word \<times> 32 word \<times> 32 word \<times> 32 word \<Rightarrow> nat list
     \<Rightarrow> 32 word \<times> 32 word \<times> 32 word \<times> 32 word" where
  "md5_block h block =
     (case (h, foldl (md5_step (words_of_bytes block)) h md5_table) of
        ((a0, b0, c0, d0), (a, b, c, d)) \<Rightarrow> (a0 + a, b0 + b, c0 + c, d0 + d))"

fun bytes_le :: "nat \<Rightarrow> nat \<Rightarrow> nat list" where
  "bytes_le 0 x = []"
| "bytes_le (Suc n) x = x mod 256 # bytes_le n (x div 256)"

definition md5_pad :: "nat list \<Rightarrow> nat list" where
  "md5_pad msg =
     msg @ [128] @ replicate ((119 - length msg mod 64) mod 64) 0
       @ bytes_le 8 ((8 * length msg) mod 2 ^ 64)"

definition hex_digit :: "nat \<Rightarrow> char" where
  "hex_digit n = ''0123456789abcdef'' ! n"

definition hex_byte :: "nat \<Rightarrow> string" where
  "hex_byte b = [hex_digit (b div 16), hex_digit (b mod 16)]"

definition md5_digest :: "nat list \<Rightarrow> nat list" where
  "md5_digest msg =
     (let padded = md5_pad msg
      in case foldl md5_block (0x67452301, 0xefcdab89, 0x98badcfe, 0x10325476)
                (chunks_of 64 (length padded div 64) padded) of
           (a, b, c, d) \<Rightarrow> concat (map (\<lambda>w. bytes_le 4 (unat w)) [a, b, c, d]))"

definition md5_hexdigest :: "string \<Rightarrow> string" where
  "md5_hexdigest s = concat (map hex_byte (md5_digest (map of_char s)))"

section \<open>Cached values\<close>

text \<open>
  What the cache stores is what \<^verbatim>\<open>json.dump\<close> writes and \<^verbatim>\<open>json.load\<close> reads back.
  \<open>JNull\<close> is Python's \<^verbatim>\<open>None\<close>.
\<close>

datatype json =
    JNull
  | JBool bool
  | JNum real
  | JStr string
  | JArr "json list"
  | JObj "(string \<times> json) list"

text \<open>Python's truth value of a loaded JSON value, as \<^verbatim>\<open>if cached_result:\<close> tests it.\<close>

fun truthy :: "json \<Rightarrow> bool" where
  "truthy JNull = False"
| "truthy (JBool b) = b"
| "truthy (JNum x) = (x \<noteq> 0)"
| "truthy (JStr s) = (s \<noteq> [])"
| "truthy (JArr xs) = (xs \<noteq> [])"
| "truthy (JObj kvs) = (kvs \<noteq> [])"

fun is_str :: "json \<Rightarrow> bool" where
  "is_str (JStr s) = True"
| "is_str v = False"

fun str_of :: "json \<Rightarrow> string" where
  "str_of (JStr s) = s"
| "str_of v = []"

text \<open>\<^verbatim>\<open>isinstance(v, list) and all(isinstance(item, str) for item in v)\<close>\<close>

fun is_str_list :: "json \<Rightarrow> bool" where
  "is_str_list (JArr xs) = list_all is_str xs"
| "is_str_list v = False"

text \<open>\<^verbatim>\<open>xs[:m]\<close> for an integer \<open>m\<close>: a negative bound counts from the end.\<close>

definition py_slice_to :: "'a list \<Rightarrow> int \<Rightarrow> 'a list" where
  "py_slice_to xs m = (if 0 \<le> m then take (nat m) xs else take (length xs - nat (- m)) xs)"

section \<open>Lookup cache\<close>

text \<open>
  A cache file is named by the MD5 digest of its key. \<^verbatim>\<open>Cache.set\<close> writes the fields
  \<^verbatim>\<open>timestamp\<close>, \<^verbatim>\<open>value\<close> and \<^verbatim>\<open>original_key\<close>; a file found on disk may also be
  unreadable as JSON or lack the first two fields (\<open>None\<close>). Times are seconds on the
  real line; \<^verbatim>\<open>datetime.now()\<close> is the argument \<open>now\<close> of each operation.

  \<^verbatim>\<open>_memory_cache\<close> exists only after \<^verbatim>\<open>preload_cache\<close> has found files.
\<close>

datatype cache_file =
    Unreadable
  | Entry (entry_timestamp: "real option") (entry_value: "json option")

record cache =
  ttl :: int
  files :: "(string \<times> cache_file) list"
  memory_cache :: "(string \<times> json) list option"

definition INFINITE_TTL :: int where
  "INFINITE_TTL = - 1"

text \<open>Assignment \<^verbatim>\<open>d[k] = v\<close> to a dictionary (also: writing the file named \<open>k\<close>).\<close>

fun dict_set :: "'k \<Rightarrow> 'v \<Rightarrow> ('k \<times> 'v) list \<Rightarrow> ('k \<times> 'v) list" where
  "dict_set k v [] = [(k, v)]"
| "dict_set k v ((k', v') # rest) =
     (if k = k' then (k, v) # rest else (k', v') # dict_set k v rest)"

text \<open>\<^verbatim>\<open>data.get('value')\<close>: Python's \<^verbatim>\<open>None\<close> when the field is missing.\<close>

definition value_or_none :: "json option \<Rightarrow> json" where
  "value_or_none v = (case v of None \<Rightarrow> JNull | Some j \<Rightarrow> j)"

text \<open>\<^verbatim>\<open>Cache.get\<close>. The in-memory table is consulted first and returned as it is.\<close>

definition cache_get :: "cache \<Rightarrow> real \<Rightarrow> string \<Rightarrow> json" where
  "cache_get self now key =
     (let key_hash = md5_hexdigest key
      in case (case memory_cache self of
                 None \<Rightarrow> None
               | Some memory \<Rightarrow> map_of memory key_hash) of
           Some v \<Rightarrow> v
         | None \<Rightarrow>
             (case map_of (files self) key_hash of
                None \<Rightarrow> JNull
              | Some Unreadable \<Rightarrow> JNull
              | Some (Entry timestamp v) \<Rightarrow>
                  if ttl self = INFINITE_TTL then value_or_none v
                  else (case timestamp of
                          None \<Rightarrow> JNull
                        | Some cache_time \<Rightarrow>
                            if now - cache_time < real_of_int (ttl self) then value_or_none v
                            else JNull)))"

text \<open>\<^verbatim>\<open>Cache.set\<close> writes the file; it does not touch the in-memory table.\<close>

definition cache_set :: "cache \<Rightarrow> real \<Rightarrow> string \<Rightarrow> json \<Rightarrow> cache" where
  "cache_set self now key v =
     self\<lparr>files := dict_set (md5_hexdigest key) (Entry (Some now) (Some v)) (files self)\<rparr>"

text \<open>
  \<^verbatim>\<open>Cache.preload_cache\<close>: a file enters the in-memory table when it has a timestamp and
  a value and, unless the TTL is infinite, is not yet expired at the time of loading.
  The result is the number of loaded items and the cache.
\<close>

definition preload_entry :: "int \<Rightarrow> real \<Rightarrow> string \<times> cache_file \<Rightarrow> (string \<times> json) option" where
  "preload_entry t now item =
     (case item of
        (key_hash, Unreadable) \<Rightarrow> None
      | (key_hash, Entry None v) \<Rightarrow> None
      | (key_hash, Entry (Some cached_time) v) \<Rightarrow>
          if t = INFINITE_TTL \<or> now - cached_time < real_of_int t
          then map_option (Pair key_hash) v
          else None)"

definition preload_cache :: "cache \<Rightarrow> real \<Rightarrow> nat \<times> cache" where
  "preload_cache self now =
     (if files self = [] then (0, self)
      else
        let loaded = List.map_filter (preload_entry (ttl self) now) (files self)
        in (length loaded, self\<lparr>memory_cache := Some loaded\<rparr>))"

section \<open>Hallmark classifier\<close>

datatype error = AttributeError | TypeError | ExternalFailure | EnrichrError

text \<open>
  What the recomputation of a classification gets from outside the repository: the
  metadata lookup and the oracle query may raise (\<open>OracleRaises\<close>); the oracle's text may
  parse as JSON, directly or after \<^verbatim>\<open>repair_json\<close> (\<open>OracleJson\<close>); or both parses fail
  (\<open>OracleUnparsable\<close>).
\<close>

datatype oracle_result = OracleRaises | OracleJson json | OracleUnparsable

text \<open>
  \<^verbatim>\<open>PathwayAnalysisAgent.analyze_pathway\<close>. The result is the returned list or the raised
  exception, with the cache after the call. A cached value that is not a list of strings
  leads to the call \<^verbatim>\<open>self.cache.delete(cache_key)\<close>; class \<^verbatim>\<open>Cache\<close> defines no
  \<^verbatim>\<open>delete\<close>, so the call raises \<^verbatim>\<open>AttributeError\<close> outside of any \<^verbatim>\<open>try\<close> block and
  the statement \<^verbatim>\<open>return []\<close> after it is not reached.
\<close>

definition analyze_pathway ::
  "cache option \<Rightarrow> real \<Rightarrow> (string \<Rightarrow> oracle_result) \<Rightarrow> string
     \<Rightarrow> (error + string list) \<times> cache option" where
  "analyze_pathway self_cache now oracle pathway =
     (let cache_key = ''gpt4_pathway_analysis_'' @ pathway;
          cached_result = (case self_cache of
                             None \<Rightarrow> JNull
                           | Some c \<Rightarrow> cache_get c now cache_key)
      in if cached_result \<noteq> JNull then
           (if is_str_list cached_result
            then (Inr (case cached_result of JArr xs \<Rightarrow> map str_of xs | _ \<Rightarrow> []), self_cache)
            else (Inl AttributeError, self_cache))
         else
           (case oracle pathway of
              OracleRaises \<Rightarrow> (Inl ExternalFailure, self_cache)
            | OracleUnparsable \<Rightarrow> (Inr [], self_cache)
            | OracleJson parsed \<Rightarrow>
                let hallmarks = (case parsed of JArr xs \<Rightarrow> xs | _ \<Rightarrow> []);
                    hallmarks = filter is_str hallmarks
                in (Inr (map str_of hallmarks),
                    map_option (\<lambda>c. cache_set c now cache_key (JArr hallmarks)) self_cache)))"

section \<open>Enrichment caller: registering a gene list\<close>

text \<open>\<^verbatim>\<open>sep.join(xs)\<close>\<close>

fun join :: "string \<Rightarrow> string list \<Rightarrow> string" where
  "join sep [] = []"
| "join sep [x] = x"
| "join sep (x # y # rest) = x @ sep @ join sep (y # rest)"

definition genes_str_of :: "string list \<Rightarrow> string" where
  "genes_str_of gene_list = join [CHR 0x0A] gene_list"

definition add_list_cache_key :: "string list \<Rightarrow> string \<Rightarrow> string" where
  "add_list_cache_key gene_list desc =
     ''enrichr_add_list_'' @ md5_hexdigest (genes_str_of gene_list) @ ''_'' @ desc"

text \<open>
  One \<^verbatim>\<open>requests.post\<close> of \<^verbatim>\<open>add_list\<close>: the service answers with a list identifier, or
  the attempt fails (HTTP error, no \<^verbatim>\<open>userListId\<close>, invalid JSON, timeout, connection
  error). The argument of \<open>post\<close> is the number of the attempt.
\<close>

datatype post_result = UserListId json | PostFailed

fun add_list_attempts :: "(nat \<Rightarrow> post_result) \<Rightarrow> nat \<Rightarrow> nat \<Rightarrow> error + json" where
  "add_list_attempts post 0 attempt = Inl EnrichrError"
| "add_list_attempts post (Suc remaining) attempt =
     (case post attempt of
        UserListId list_id \<Rightarrow> Inr list_id
      | PostFailed \<Rightarrow>
          if 0 < remaining then add_list_attempts post remaining (attempt + 1)
          else Inl EnrichrError)"

text \<open>
  \<^verbatim>\<open>EnrichrCaller.add_list\<close>: the list identifier or the \<^verbatim>\<open>Exception\<close> object that the
  method returns, with the cache after the call.
\<close>

definition add_list ::
  "cache option \<Rightarrow> nat \<Rightarrow> real \<Rightarrow> (nat \<Rightarrow> post_result) \<Rightarrow> string list \<Rightarrow> string
     \<Rightarrow> (error + json) \<times> cache option" where
  "add_list self_cache max_retries now post gene_list desc =
     (let cache_key = add_list_cache_key gene_list desc;
          cached_result = (case self_cache of
                             None \<Rightarrow> JNull
                           | Some c \<Rightarrow> cache_get c now cache_key)
      in if truthy cached_result then (Inr cached_result, self_cache)
         else
           (case add_list_attempts post max_retries 0 of
              Inr list_id \<Rightarrow>
                (Inr list_id, map_option (\<lambda>c. cache_set c now cache_key list_id) self_cache)
            | Inl e \<Rightarrow> (Inl e, self_cache)))"

section \<open>Association fetcher\<close>

text \<open>
  One answer of the association service to the paged GraphQL query: the request raises
  \<^verbatim>\<open>RequestException\<close>; the response is not \<^verbatim>\<open>ok\<close> and has a status code; the response
  is \<^verbatim>\<open>ok\<close> but lacks the path to the rows (\<^verbatim>\<open>KeyError\<close> or \<^verbatim>\<open>TypeError\<close>); or it is a
  page of rows, each a gene symbol with a score, and the reported total count.

  The service is a function of the number of requests made so far and of the page index.
\<close>

datatype response =
    RequestException
  | HttpError nat
  | Malformed
  | Page "(string \<times> real) list" int

type_synonym service = "nat \<Rightarrow> nat \<Rightarrow> response"

definition page_size :: nat where
  "page_size = 100"

text \<open>
  The inner loop \<^verbatim>\<open>for _ in range(self.max_retries)\<close> of \<^verbatim>\<open>get_disease_targets\<close>. The
  result tells whether the loop was left by \<^verbatim>\<open>break\<close> (\<open>True\<close>) or ran out of attempts
  (\<open>False\<close>, the \<^verbatim>\<open>else\<close> branch of the \<^verbatim>\<open>for\<close>), with \<^verbatim>\<open>all_targets\<close>,
  \<^verbatim>\<open>current_page\<close> and the number of requests made. Every \<^verbatim>\<open>break\<close> in the body,
  also the one under the comment "we're done", leaves this inner loop only.
\<close>

fun request_page ::
  "service \<Rightarrow> real \<Rightarrow> nat \<Rightarrow> nat \<Rightarrow> nat \<Rightarrow> string list \<Rightarrow> bool \<times> string list \<times> nat \<times> nat" where
  "request_page svc score_threshold 0 requests current_page all_targets =
     (False, all_targets, current_page, requests)"
| "request_page svc score_threshold (Suc attempts) requests current_page all_targets =
     (case svc requests current_page of
        RequestException \<Rightarrow>
          request_page svc score_threshold attempts (requests + 1) current_page all_targets
      | HttpError status_code \<Rightarrow>
          if status_code \<noteq> 503 then (True, all_targets, current_page, requests + 1)
          else request_page svc score_threshold attempts (requests + 1) current_page all_targets
      | Malformed \<Rightarrow> (True, all_targets, current_page, requests + 1)
      | Page rows total_count \<Rightarrow>
          let all_targets =
                all_targets @ map fst (filter (\<lambda>(symbol, score). score \<ge> score_threshold) rows)
          in if length rows < page_size \<or> int (length all_targets) \<ge> total_count
             then (True, all_targets, current_page, requests + 1)
             else (True, all_targets, current_page + 1, requests + 1))"

text \<open>
  The outer loop \<^verbatim>\<open>while len(all_targets) < max_targets\<close>. The first argument bounds the
  number of iterations; \<open>None\<close> means that the loop has not ended within the bound.
\<close>

fun fetch_pages ::
  "nat \<Rightarrow> service \<Rightarrow> real \<Rightarrow> nat \<Rightarrow> int \<Rightarrow> nat \<Rightarrow> nat \<Rightarrow> string list \<Rightarrow> string list option" where
  "fetch_pages 0 svc score_threshold max_retries max_targets requests current_page all_targets =
     None"
| "fetch_pages (Suc fuel) svc score_threshold max_retries max_targets requests current_page
       all_targets =
     (if int (length all_targets) < max_targets then
        (case request_page svc score_threshold max_retries requests current_page all_targets of
           (True, all_targets, current_page, requests) \<Rightarrow>
             fetch_pages fuel svc score_threshold max_retries max_targets requests current_page
               all_targets
         | (False, all_targets, current_page, requests) \<Rightarrow> Some all_targets)
      else Some all_targets)"

text \<open>
  The cache key of \<^verbatim>\<open>get_disease_targets\<close>. \<open>fmt\<close> is Python's formatting of the float
  \<^verbatim>\<open>score_threshold\<close> in an f-string.
\<close>

definition disease_targets_cache_key :: "(real \<Rightarrow> string) \<Rightarrow> string \<Rightarrow> real \<Rightarrow> string" where
  "disease_targets_cache_key fmt efo_id score_threshold =
     ''ot_disease_targets_'' @ efo_id @ ''_score'' @ fmt score_threshold"

text \<open>
  \<^verbatim>\<open>get_disease_targets\<close> after the cache lookup: the paginated fetch, the truncation to
  \<^verbatim>\<open>max_targets\<close> and the write of the truncated result to the cache.
\<close>

definition fetch_disease_targets ::
  "nat \<Rightarrow> cache option \<Rightarrow> nat \<Rightarrow> real \<Rightarrow> (real \<Rightarrow> string) \<Rightarrow> service \<Rightarrow> string \<Rightarrow> int \<Rightarrow> real
     \<Rightarrow> ((error + json) \<times> cache option) option" where
  "fetch_disease_targets fuel self_cache max_retries now fmt svc efo_id max_targets
       score_threshold =
     (case fetch_pages fuel svc score_threshold max_retries max_targets 0 0 [] of
        None \<Rightarrow> None
      | Some all_targets \<Rightarrow>
          let result = JArr (map JStr (py_slice_to all_targets max_targets));
              cache_key = disease_targets_cache_key fmt efo_id score_threshold
          in Some (Inr result, map_option (\<lambda>c. cache_set c now cache_key result) self_cache))"

text \<open>
  \<^verbatim>\<open>OpenTargetsAPI.get_disease_targets\<close>. A cached value is used when it is true in
  Python's sense; slicing it raises \<^verbatim>\<open>TypeError\<close> unless it is a list or a string.
\<close>

definition get_disease_targets ::
  "nat \<Rightarrow> cache option \<Rightarrow> nat \<Rightarrow> real \<Rightarrow> (real \<Rightarrow> string) \<Rightarrow> service \<Rightarrow> string \<Rightarrow> int \<Rightarrow> real
     \<Rightarrow> ((error + json) \<times> cache option) option" where
  "get_disease_targets fuel self_cache max_retries now fmt svc efo_id max_targets
       score_threshold =
     (let cache_key = disease_targets_cache_key fmt efo_id score_threshold;
          cached_result = (case self_cache of
                             None \<Rightarrow> JNull
                           | Some c \<Rightarrow> cache_get c now cache_key)
      in if truthy cached_result then
           Some ((case cached_result of
                    JArr xs \<Rightarrow> Inr (JArr (py_slice_to xs max_targets))
                  | JStr str \<Rightarrow> Inr (JStr (py_slice_to str max_targets))
                  | _ \<Rightarrow> Inl TypeError),
                 self_cache)
         else fetch_disease_targets fuel self_cache max_retries now fmt svc efo_id max_targets
                score_threshold)"

text \<open>
  Two functions used to state the scorer's properties. \<open>contributing\<close> lists the keys of a
  classification result whose hallmark list has the hallmark; \<open>classified_pathways\<close> lists
  the enriched pathways that the classifier assigns to a hallmark (named as in the
  analyser, with spaces).
\<close>

definition contributing :: "string option \<Rightarrow> pathway_hallmarks \<Rightarrow> string list" where
  "contributing a phs = map fst (filter (\<lambda>(pathway, hallmark_list). hallmark_in_list a hallmark_list) phs)"

definition classified_pathways :: "(string \<Rightarrow> string list) \<Rightarrow> enriched_pathways \<Rightarrow> string \<Rightarrow> string list" where
  "classified_pathways classify enriched hallmark =
     filter (\<lambda>pathway. hallmark_in_list (agent_hallmark_name_of hallmark) (classify pathway))
       (map fst enriched)"

section \<open>Properties of the pathway normaliser\<close>

lemma log2_count_nonneg: "0 \<le> log 2 (real (c + 1))"
  by simp

lemma normalization_formula_pos: "0 < 1 / sqrt (log 2 (real (c + 1)) + 1)"
proof -
  have "0 < log 2 (real (c + 1)) + 1"
    using log2_count_nonneg [of c] by linarith
  then show ?thesis by simp
qed

lemma normalization_formula_le_one: "1 / sqrt (log 2 (real (c + 1)) + 1) \<le> 1"
proof -
  have "1 \<le> log 2 (real (c + 1)) + 1"
    using log2_count_nonneg [of c] by linarith
  then have ge: "1 \<le> sqrt (log 2 (real (c + 1)) + 1)"
    by (simp only: real_sqrt_ge_1_iff)
  then have "0 < sqrt (log 2 (real (c + 1)) + 1)"
    by linarith
  then show ?thesis
    using ge by (simp only: divide_le_eq_1_pos)
qed

lemma normalization_formula_antimono:
  assumes "c1 \<le> c2"
  shows "1 / sqrt (log 2 (real (c2 + 1)) + 1) \<le> 1 / sqrt (log 2 (real (c1 + 1)) + 1)"
proof -
  have "log 2 (real (c1 + 1)) \<le> log 2 (real (c2 + 1))"
    using assms by simp
  then have le: "sqrt (log 2 (real (c1 + 1)) + 1) \<le> sqrt (log 2 (real (c2 + 1)) + 1)"
    by simp
  have "0 < log 2 (real (c1 + 1)) + 1"
    using log2_count_nonneg [of c1] by linarith
  then have pos: "0 < sqrt (log 2 (real (c1 + 1)) + 1)"
    by (simp only: real_sqrt_gt_0_iff)
  show ?thesis
    by (rule frac_le [OF _ _ pos le]) simp_all
qed

lemma get_normalization_factor_cases:
  "get_normalization_factor counts h =
     (case map_of counts h of
        None \<Rightarrow> 1
      | Some c \<Rightarrow> if c = 0 then 1 else 1 / sqrt (log 2 (real (c + 1)) + 1))"
  by (cases "map_of counts h") (auto simp: get_normalization_factor_def)

lemma get_normalization_factor_pos: "0 < get_normalization_factor counts h"
  unfolding get_normalization_factor_cases
  using normalization_formula_pos by (simp split: option.split)

lemma get_normalization_factor_le_one: "get_normalization_factor counts h \<le> 1"
  unfolding get_normalization_factor_cases
  using normalization_formula_le_one by (simp split: option.split)

text \<open>
  C7. The normalisation factor is 1 for a hallmark that is absent from the count table or
  has count zero, and \<open>1 / sqrt (log2 (count + 1) + 1)\<close> otherwise; it always lies in
  \<open>(0, 1]\<close>; and for two hallmarks with positive counts \<open>c1 < c2\<close> the factor of the first
  is at least the factor of the second.
\<close>

theorem get_normalization_factor_spec:
  "get_normalization_factor counts h =
     (case map_of counts h of
        None \<Rightarrow> 1
      | Some c \<Rightarrow> if c = 0 then 1 else 1 / sqrt (log 2 (real (c + 1)) + 1))
   \<and> 0 < get_normalization_factor counts h
   \<and> get_normalization_factor counts h \<le> 1
   \<and> (\<forall>h1 h2 c1 c2.
         map_of counts h1 = Some c1 \<and> map_of counts h2 = Some c2 \<and> 0 < c1 \<and> c1 < c2
         \<longrightarrow> get_normalization_factor counts h2 \<le> get_normalization_factor counts h1)"
proof (intro conjI allI impI)
  show "get_normalization_factor counts h =
     (case map_of counts h of
        None \<Rightarrow> 1
      | Some c \<Rightarrow> if c = 0 then 1 else 1 / sqrt (log 2 (real (c + 1)) + 1))"
    by (rule get_normalization_factor_cases)
  show "0 < get_normalization_factor counts h"
    by (rule get_normalization_factor_pos)
  show "get_normalization_factor counts h \<le> 1"
    by (rule get_normalization_factor_le_one)
next
  fix h1 h2 c1 c2
  assume a: "map_of counts h1 = Some c1 \<and> map_of counts h2 = Some c2 \<and> 0 < c1 \<and> c1 < c2"
  then have "c1 \<le> c2" "c1 \<noteq> 0" "c2 \<noteq> 0" by simp_all
  then show "get_normalization_factor counts h2 \<le> get_normalization_factor counts h1"
    using a normalization_formula_antimono [of c1 c2]
    by (simp add: get_normalization_factor_cases)
qed

theorem get_normalization_factor_spec_witness:
  "map_of [(''Genomic_instability'', 3), (''Chronic_inflammation'', 15 :: nat)]
       ''Genomic_instability'' = Some 3
   \<and> map_of [(''Genomic_instability'', 3), (''Chronic_inflammation'', 15 :: nat)]
       ''Chronic_inflammation'' = Some 15
   \<and> (0 :: nat) < 3 \<and> (3 :: nat) < 15
   \<and> get_normalization_factor
        [(''Genomic_instability'', 3), (''Chronic_inflammation'', 15)] ''Chronic_inflammation''
     \<le> get_normalization_factor
        [(''Genomic_instability'', 3), (''Chronic_inflammation'', 15)] ''Genomic_instability''"
proof -
  let ?counts = "[(''Genomic_instability'', 3), (''Chronic_inflammation'', 15 :: nat)]"
  have m1: "map_of ?counts ''Genomic_instability'' = Some 3" by simp
  have m2: "map_of ?counts ''Chronic_inflammation'' = Some 15" by simp
  note mono = get_normalization_factor_spec [of ?counts "''Genomic_instability''",
      THEN conjunct2, THEN conjunct2, THEN conjunct2, rule_format,
      of "''Genomic_instability''" 3 "''Chronic_inflammation''" 15]
  have "get_normalization_factor ?counts ''Chronic_inflammation''
        \<le> get_normalization_factor ?counts ''Genomic_instability''"
    by (rule mono) simp
  then show ?thesis using m1 m2 by simp
qed

section \<open>Properties of the hallmark scorer\<close>

lemma pathway_loop_eq:
  "pathway_loop a e phs (s, c, r) =
     (s + sum_list (map (\<lambda>p. pathway_weight (p_value_of e p)) (contributing a phs)),
      c + length (contributing a phs),
      r @ contributing a phs)"
  by (induction phs arbitrary: s c r) (auto simp: contributing_def)

lemma contributing_analyze_pathways:
  "contributing (agent_hallmark_name_of h) (analyze_pathways classify enriched) =
     classified_pathways classify enriched h"
  by (induction enriched) (auto simp: contributing_def analyze_pathways_def classified_pathways_def)

lemma analyze_pathways_map_fst:
  "map fst (analyze_pathways classify enriched) = map fst enriched"
  by (induction enriched) (auto simp: analyze_pathways_def)

lemma analyze_pathways_keys:
  assumes "pathway \<in> set (map fst (analyze_pathways classify enriched))"
  shows "map_of enriched pathway \<noteq> None"
proof -
  have "pathway \<in> fst ` set enriched"
    using assms by (simp only: analyze_pathways_map_fst set_map)
  then show ?thesis
    by (simp only: map_of_eq_None_iff not_not)
qed

lemma compute_hallmark_scores_entry:
  assumes "(hallmark, score) \<in> set (compute_hallmark_scores counts hg classify genes enriched)"
  shows "\<exists>gene_list. (hallmark, gene_list) \<in> set hg \<and>
           score = final_score hallmark
             (raw_score_of counts genes enriched (analyze_pathways classify enriched) hallmark gene_list)"
  using assms by (auto simp: compute_hallmark_scores_def Let_def)

lemma raw_score_of_pathway_count:
  "pathway_count (raw_score_of counts genes enriched (analyze_pathways classify enriched) h gl) =
     length (classified_pathways classify enriched h)"
  by (simp add: raw_score_of_def Let_def pathway_loop_eq contributing_analyze_pathways)

lemma raw_score_of_raw_total:
  "raw_total (raw_score_of counts genes enriched phs h gl) =
     0.3 * gene_score (raw_score_of counts genes enriched phs h gl)
     + 0.7 * raw_pathway_score (raw_score_of counts genes enriched phs h gl)"
  by (simp add: raw_score_of_def Let_def split: prod.splits)

lemma raw_score_of_pathway_score:
  "raw_pathway_score (raw_score_of counts genes enriched (analyze_pathways classify enriched) h gl) =
     (let contributing_pathways = classified_pathways classify enriched h;
          n = length contributing_pathways
      in if n = 0 then 0
         else (sum_list (map (\<lambda>p. pathway_weight (p_value_of enriched p)) contributing_pathways) / real n)
              * max (get_normalization_factor counts h) 0.5
              * (1 + min (log 2 (real (n + 1)) / 4) 1))"
  by (simp add: raw_score_of_def Let_def pathway_loop_eq contributing_analyze_pathways)

text \<open>
  C1. For every hallmark scored in one pass, the final \<open>total_score\<close> is
  \<open>(0.3 * gene_overlap_score + 0.7 * pathway_score)\<close> times
  \<open>min (sqrt (pathway_count + 1) / sqrt 10) 1.5\<close>, where \<open>pathway_count\<close> is the number of
  enriched pathways classified to the hallmark; the multiplier never exceeds 1.5.
\<close>

theorem total_score_formula:
  assumes "(hallmark, score) \<in> set (compute_hallmark_scores counts hg classify genes enriched)"
  shows "total_score score =
           (0.3 * gene_overlap_score score + 0.7 * pathway_score score)
           * min (sqrt (real (length (classified_pathways classify enriched hallmark) + 1)) / sqrt 10) 1.5
         \<and> min (sqrt (real (length (classified_pathways classify enriched hallmark) + 1)) / sqrt 10) 1.5
             \<le> (1.5 :: real)"
proof -
  from compute_hallmark_scores_entry [OF assms] obtain gl where
    s: "score = final_score hallmark
             (raw_score_of counts genes enriched (analyze_pathways classify enriched) hallmark gl)"
    by blast
  have "total_score score =
           (0.3 * gene_overlap_score score + 0.7 * pathway_score score)
           * min (sqrt (real (length (classified_pathways classify enriched hallmark) + 1)) / sqrt 10) 1.5"
    unfolding s
    by (simp add: final_score_def Let_def raw_score_of_pathway_count raw_score_of_raw_total)
  moreover have
    "min (sqrt (real (length (classified_pathways classify enriched hallmark) + 1)) / sqrt 10) 1.5
       \<le> (1.5 :: real)"
    by (rule min.cobounded2)
  ultimately show ?thesis by (rule conjI)
qed

theorem total_score_formula_witness:
  "(''Genomic instability'',
    final_score ''Genomic instability''
      (raw_score_of [] [''TP53''] [(''DNA Repair (GO:0006281)'', 1 / 1000)]
         (analyze_pathways (\<lambda>p. [''Genomic_instability'']) [(''DNA Repair (GO:0006281)'', 1 / 1000)])
         ''Genomic instability'' [''TP53'', ''ATM'']))
     \<in> set (compute_hallmark_scores [] [(''Genomic instability'', [''TP53'', ''ATM''])]
               (\<lambda>p. [''Genomic_instability'']) [''TP53'']
               [(''DNA Repair (GO:0006281)'', 1 / 1000)])
   \<and> total_score
        (final_score ''Genomic instability''
          (raw_score_of [] [''TP53''] [(''DNA Repair (GO:0006281)'', 1 / 1000)]
             (analyze_pathways (\<lambda>p. [''Genomic_instability'']) [(''DNA Repair (GO:0006281)'', 1 / 1000)])
             ''Genomic instability'' [''TP53'', ''ATM'']))
     = (0.3 * gene_overlap_score
          (final_score ''Genomic instability''
            (raw_score_of [] [''TP53''] [(''DNA Repair (GO:0006281)'', 1 / 1000)]
               (analyze_pathways (\<lambda>p. [''Genomic_instability'']) [(''DNA Repair (GO:0006281)'', 1 / 1000)])
               ''Genomic instability'' [''TP53'', ''ATM'']))
        + 0.7 * pathway_score
          (final_score ''Genomic instability''
            (raw_score_of [] [''TP53''] [(''DNA Repair (GO:0006281)'', 1 / 1000)]
               (analyze_pathways (\<lambda>p. [''Genomic_instability'']) [(''DNA Repair (GO:0006281)'', 1 / 1000)])
               ''Genomic instability'' [''TP53'', ''ATM''])))
       * min (sqrt 2 / sqrt 10) 1.5"
proof -
  let ?e = "[(''DNA Repair (GO:0006281)'', 1 / 1000 :: real)]"
  let ?c = "\<lambda>p :: string. [''Genomic_instability'']"
  let ?s = "final_score ''Genomic instability''
      (raw_score_of [] [''TP53''] ?e (analyze_pathways ?c ?e)
         ''Genomic instability'' [''TP53'', ''ATM''])"
  have m: "(''Genomic instability'', ?s)
     \<in> set (compute_hallmark_scores [] [(''Genomic instability'', [''TP53'', ''ATM''])]
               ?c [''TP53''] ?e)"
    by (simp add: compute_hallmark_scores_def)
  have n: "length (classified_pathways ?c ?e ''Genomic instability'') = 1"
    by (simp add: classified_pathways_def agent_hallmark_name_of_def hallmark_name_mapping_def
          hallmark_in_list_def)
  show ?thesis
    using m total_score_formula [OF m] by (simp add: n)
qed

text \<open>
  C2. For every hallmark scored in one pass, the pathway score is 0 when no enriched
  pathway is classified to the hallmark; otherwise it is the mean over the contributing
  pathways of the weight \<open>- log10 p_value\<close> (0 when \<open>p_value \<le> 0\<close>), times
  \<open>max (normalization_factor hallmark) 0.5\<close>, times the bonus factor
  \<open>1 + min (log2 (pathway_count + 1) / 4) 1\<close>; the bonus factor never exceeds 2.
\<close>

theorem pathway_score_formula:
  assumes "(hallmark, score) \<in> set (compute_hallmark_scores counts hg classify genes enriched)"
  shows "pathway_score score =
           (let contributing_pathways = classified_pathways classify enriched hallmark;
                n = length contributing_pathways
            in if n = 0 then 0
               else (sum_list (map (\<lambda>p. pathway_weight (p_value_of enriched p)) contributing_pathways) / real n)
                    * max (get_normalization_factor counts hallmark) 0.5
                    * (1 + min (log 2 (real (n + 1)) / 4) 1))
         \<and> 1 + min (log 2 (real (length (classified_pathways classify enriched hallmark) + 1)) / 4) 1
             \<le> (2 :: real)"
proof -
  from compute_hallmark_scores_entry [OF assms] obtain gl where
    s: "score = final_score hallmark
             (raw_score_of counts genes enriched (analyze_pathways classify enriched) hallmark gl)"
    by blast
  have "pathway_score score =
           (let contributing_pathways = classified_pathways classify enriched hallmark;
                n = length contributing_pathways
            in if n = 0 then 0
               else (sum_list (map (\<lambda>p. pathway_weight (p_value_of enriched p)) contributing_pathways) / real n)
                    * max (get_normalization_factor counts hallmark) 0.5
                    * (1 + min (log 2 (real (n + 1)) / 4) 1))"
    unfolding s
    by (simp add: final_score_def raw_score_of_pathway_score)
  moreover have
    "min (log 2 (real (length (classified_pathways classify enriched hallmark) + 1)) / 4) 1
       \<le> (1 :: real)"
    by (rule min.cobounded2)
  then have
    "1 + min (log 2 (real (length (classified_pathways classify enriched hallmark) + 1)) / 4) 1
       \<le> (2 :: real)"
    by linarith
  ultimately show ?thesis by (rule conjI)
qed

theorem pathway_score_formula_witness:
  "(''Genomic instability'',
    final_score ''Genomic instability''
      (raw_score_of [] [''TP53''] [(''DNA Repair (GO:0006281)'', 1 / 1000)]
         (analyze_pathways (\<lambda>p. [''Genomic_instability'']) [(''DNA Repair (GO:0006281)'', 1 / 1000)])
         ''Genomic instability'' [''TP53'', ''ATM'']))
     \<in> set (compute_hallmark_scores [] [(''Genomic instability'', [''TP53'', ''ATM''])]
               (\<lambda>p. [''Genomic_instability'']) [''TP53'']
               [(''DNA Repair (GO:0006281)'', 1 / 1000)])
   \<and> pathway_score
        (final_score ''Genomic instability''
          (raw_score_of [] [''TP53''] [(''DNA Repair (GO:0006281)'', 1 / 1000)]
             (analyze_pathways (\<lambda>p. [''Genomic_instability'']) [(''DNA Repair (GO:0006281)'', 1 / 1000)])
             ''Genomic instability'' [''TP53'', ''ATM'']))
     = 3 * (1 + min (1 / 4) 1)"
proof -
  let ?e = "[(''DNA Repair (GO:0006281)'', 1 / 1000 :: real)]"
  let ?c = "\<lambda>p :: string. [''Genomic_instability'']"
  let ?s = "final_score ''Genomic instability''
      (raw_score_of [] [''TP53''] ?e (analyze_pathways ?c ?e)
         ''Genomic instability'' [''TP53'', ''ATM''])"
  have m: "(''Genomic instability'', ?s)
     \<in> set (compute_hallmark_scores [] [(''Genomic instability'', [''TP53'', ''ATM''])]
               ?c [''TP53''] ?e)"
    by (simp add: compute_hallmark_scores_def)
  have c: "classified_pathways ?c ?e ''Genomic instability'' = [''DNA Repair (GO:0006281)'']"
    by (simp add: classified_pathways_def agent_hallmark_name_of_def hallmark_name_mapping_def
          hallmark_in_list_def)
  have "log 10 (1 / 1000 :: real) = - 3"
    using log_pow_cancel [of 10 3] by (simp add: log_divide)
  then have w: "pathway_weight (p_value_of ?e ''DNA Repair (GO:0006281)'') = 3"
    by (simp add: pathway_weight_def p_value_of_def)
  have nf: "get_normalization_factor [] ''Genomic instability'' = 1"
    by (simp add: get_normalization_factor_def)
  show ?thesis
    using m pathway_score_formula [OF m] by (simp add: c w nf)
qed

text \<open>
  Inputs that are equal as multisets have the same memo key; the scorer on a miss, on a
  repeated key and on another key.
\<close>

lemma score_cache_key_of_perm:
  assumes "mset genes' = mset genes" and "mset enriched' = mset enriched"
  shows "score_cache_key_of genes' enriched' = score_cache_key_of genes enriched"
proof -
  have "mset (sort genes) = mset genes'"
    using assms(1) by simp
  then have g: "sort genes' = sort genes"
    by (rule properties_for_sort) simp
  have "mset (sort enriched) = mset enriched'"
    using assms(2) by simp
  then have e: "sort enriched' = sort enriched"
    by (rule properties_for_sort) simp
  show ?thesis
    by (simp add: score_cache_key_of_def g e)
qed

lemma calculate_hallmark_scores_miss:
  assumes "(case hallmark_score_cache self of
              None \<Rightarrow> None
            | Some cache \<Rightarrow> cache (score_cache_key_of genes enriched)) = None"
  shows "calculate_hallmark_scores self classify genes enriched =
           (compute_hallmark_scores (normalizer_counts self) (hallmark_genes_table self)
              classify genes enriched,
            self\<lparr>hallmark_score_cache :=
                   Some ((case hallmark_score_cache self of
                            None \<Rightarrow> Map.empty
                          | Some cache \<Rightarrow> cache)
                         (score_cache_key_of genes enriched \<mapsto>
                            compute_hallmark_scores (normalizer_counts self)
                              (hallmark_genes_table self) classify genes enriched))\<rparr>)"
  using assms
  by (auto simp: calculate_hallmark_scores_def Let_def split: option.splits)

lemma calculate_hallmark_scores_again:
  assumes "score_cache_key_of genes' enriched' = score_cache_key_of genes enriched"
  shows "calculate_hallmark_scores
           (snd (calculate_hallmark_scores self classify genes enriched))
           classify' genes' enriched'
         = (fst (calculate_hallmark_scores self classify genes enriched),
            snd (calculate_hallmark_scores self classify genes enriched))"
  using assms
  by (auto simp: calculate_hallmark_scores_def Let_def split: option.splits)

lemma calculate_hallmark_scores_other_key:
  assumes "score_cache_key_of genes' enriched' \<noteq> score_cache_key_of genes enriched"
    and "(case hallmark_score_cache self of
            None \<Rightarrow> None
          | Some cache \<Rightarrow> cache (score_cache_key_of genes' enriched')) = None"
  shows "fst (calculate_hallmark_scores
                (snd (calculate_hallmark_scores self classify genes enriched))
                classify' genes' enriched')
         = compute_hallmark_scores (normalizer_counts self) (hallmark_genes_table self)
             classify' genes' enriched'"
  using assms
  by (auto simp: calculate_hallmark_scores_def Let_def split: option.splits)

text \<open>
  C8. The scorer memoises on the key made of the sorted gene list and the sorted
  pathway/p-value pairs. A call that finds no entry under its key computes the scores
  and stores them under that key. A later call whose genes and enriched pathways are the
  same up to order returns the stored score mapping and leaves the memo table as it is,
  whatever the classifier would answer then. A later call with another key, not yet in
  the table, is not served from the stored entry: it computes its own scores.
\<close>

theorem calculate_hallmark_scores_memoizes:
  "score_cache_key_of genes enriched = (sort genes, sort enriched)
   \<and> ((case hallmark_score_cache self of
          None \<Rightarrow> None
        | Some cache \<Rightarrow> cache (score_cache_key_of genes enriched)) = None
      \<longrightarrow> calculate_hallmark_scores self classify genes enriched =
            (compute_hallmark_scores (normalizer_counts self) (hallmark_genes_table self)
               classify genes enriched,
             self\<lparr>hallmark_score_cache :=
                    Some ((case hallmark_score_cache self of
                             None \<Rightarrow> Map.empty
                           | Some cache \<Rightarrow> cache)
                          (score_cache_key_of genes enriched \<mapsto>
                             compute_hallmark_scores (normalizer_counts self)
                               (hallmark_genes_table self) classify genes enriched))\<rparr>))
   \<and> (mset genes' = mset genes \<and> mset enriched' = mset enriched
      \<longrightarrow> calculate_hallmark_scores
            (snd (calculate_hallmark_scores self classify genes enriched))
            classify' genes' enriched'
          = (fst (calculate_hallmark_scores self classify genes enriched),
             snd (calculate_hallmark_scores self classify genes enriched)))
   \<and> (score_cache_key_of genes'' enriched'' \<noteq> score_cache_key_of genes enriched
      \<and> (case hallmark_score_cache self of
            None \<Rightarrow> None
          | Some cache \<Rightarrow> cache (score_cache_key_of genes'' enriched'')) = None
      \<longrightarrow> fst (calculate_hallmark_scores
                 (snd (calculate_hallmark_scores self classify genes enriched))
                 classify' genes'' enriched'')
          = compute_hallmark_scores (normalizer_counts self) (hallmark_genes_table self)
              classify' genes'' enriched'')"
proof (intro conjI impI)
  show "score_cache_key_of genes enriched = (sort genes, sort enriched)"
    by (simp add: score_cache_key_of_def)
next
  assume "(case hallmark_score_cache self of
             None \<Rightarrow> None
           | Some cache \<Rightarrow> cache (score_cache_key_of genes enriched)) = None"
  then show "calculate_hallmark_scores self classify genes enriched =
            (compute_hallmark_scores (normalizer_counts self) (hallmark_genes_table self)
               classify genes enriched,
             self\<lparr>hallmark_score_cache :=
                    Some ((case hallmark_score_cache self of
                             None \<Rightarrow> Map.empty
                           | Some cache \<Rightarrow> cache)
                          (score_cache_key_of genes enriched \<mapsto>
                             compute_hallmark_scores (normalizer_counts self)
                               (hallmark_genes_table self) classify genes enriched))\<rparr>)"
    by (rule calculate_hallmark_scores_miss)
next
  assume perm: "mset genes' = mset genes \<and> mset enriched' = mset enriched"
  have "score_cache_key_of genes' enriched' = score_cache_key_of genes enriched"
    by (rule score_cache_key_of_perm [OF conjunct1 [OF perm] conjunct2 [OF perm]])
  then show "calculate_hallmark_scores
            (snd (calculate_hallmark_scores self classify genes enriched))
            classify' genes' enriched'
          = (fst (calculate_hallmark_scores self classify genes enriched),
             snd (calculate_hallmark_scores self classify genes enriched))"
    by (rule calculate_hallmark_scores_again)
next
  assume other: "score_cache_key_of genes'' enriched'' \<noteq> score_cache_key_of genes enriched
      \<and> (case hallmark_score_cache self of
            None \<Rightarrow> None
          | Some cache \<Rightarrow> cache (score_cache_key_of genes'' enriched'')) = None"
  show "fst (calculate_hallmark_scores
                 (snd (calculate_hallmark_scores self classify genes enriched))
                 classify' genes'' enriched'')
          = compute_hallmark_scores (normalizer_counts self) (hallmark_genes_table self)
              classify' genes'' enriched''"
    by (rule calculate_hallmark_scores_other_key [OF conjunct1 [OF other] conjunct2 [OF other]])
qed

theorem calculate_hallmark_scores_memoizes_witness:
  "(case hallmark_score_cache
           \<lparr>hallmark_genes_table = [(''Genomic instability'', [''TP53'', ''ATM''])],
            normalizer_counts = [], hallmark_score_cache = None\<rparr> of
      None \<Rightarrow> None
    | Some cache \<Rightarrow>
        cache (score_cache_key_of [''TP53'', ''ATM''] [(''DNA Repair (GO:0006281)'', 1 / 1000)]))
     = None
   \<and> mset [''ATM'', ''TP53''] = mset [''TP53'', ''ATM'']
   \<and> mset [(''DNA Repair (GO:0006281)'', 1 / 1000 :: real)]
       = mset [(''DNA Repair (GO:0006281)'', 1 / 1000)]
   \<and> score_cache_key_of [''TP53'', ''ATM''] []
       \<noteq> score_cache_key_of [''TP53'', ''ATM''] [(''DNA Repair (GO:0006281)'', 1 / 1000)]
   \<and> (case hallmark_score_cache
             \<lparr>hallmark_genes_table = [(''Genomic instability'', [''TP53'', ''ATM''])],
              normalizer_counts = [], hallmark_score_cache = None\<rparr> of
        None \<Rightarrow> None
      | Some cache \<Rightarrow> cache (score_cache_key_of [''TP53'', ''ATM''] [])) = None
   \<and> fst (calculate_hallmark_scores
             \<lparr>hallmark_genes_table = [(''Genomic instability'', [''TP53'', ''ATM''])],
              normalizer_counts = [], hallmark_score_cache = None\<rparr>
             (\<lambda>pathway. [''Genomic_instability''])
             [''TP53'', ''ATM''] [(''DNA Repair (GO:0006281)'', 1 / 1000)])
       = compute_hallmark_scores [] [(''Genomic instability'', [''TP53'', ''ATM''])]
           (\<lambda>pathway. [''Genomic_instability''])
           [''TP53'', ''ATM''] [(''DNA Repair (GO:0006281)'', 1 / 1000)]
   \<and> fst (calculate_hallmark_scores
             (snd (calculate_hallmark_scores
                     \<lparr>hallmark_genes_table = [(''Genomic instability'', [''TP53'', ''ATM''])],
                      normalizer_counts = [], hallmark_score_cache = None\<rparr>
                     (\<lambda>pathway. [''Genomic_instability''])
                     [''TP53'', ''ATM''] [(''DNA Repair (GO:0006281)'', 1 / 1000)]))
             (\<lambda>pathway. [])
             [''ATM'', ''TP53''] [(''DNA Repair (GO:0006281)'', 1 / 1000)])
       = compute_hallmark_scores [] [(''Genomic instability'', [''TP53'', ''ATM''])]
           (\<lambda>pathway. [''Genomic_instability''])
           [''TP53'', ''ATM''] [(''DNA Repair (GO:0006281)'', 1 / 1000)]
   \<and> fst (calculate_hallmark_scores
             (snd (calculate_hallmark_scores
                     \<lparr>hallmark_genes_table = [(''Genomic instability'', [''TP53'', ''ATM''])],
                      normalizer_counts = [], hallmark_score_cache = None\<rparr>
                     (\<lambda>pathway. [''Genomic_instability''])
                     [''TP53'', ''ATM''] [(''DNA Repair (GO:0006281)'', 1 / 1000)]))
             (\<lambda>pathway. [])
             [''TP53'', ''ATM''] [])
       = compute_hallmark_scores [] [(''Genomic instability'', [''TP53'', ''ATM''])]
           (\<lambda>pathway. []) [''TP53'', ''ATM''] []"
proof -
  let ?self = "\<lparr>hallmark_genes_table = [(''Genomic instability'', [''TP53'', ''ATM''])],
            normalizer_counts = [], hallmark_score_cache = None\<rparr>"
  let ?g = "[''TP53'', ''ATM'']"
  let ?e = "[(''DNA Repair (GO:0006281)'', 1 / 1000 :: real)]"
  let ?c = "\<lambda>pathway :: string. [''Genomic_instability'']"
  let ?c' = "\<lambda>pathway :: string. [] :: string list"
  note t = calculate_hallmark_scores_memoizes
    [where self = ?self and genes = ?g and enriched = ?e and classify = ?c
       and classify' = ?c' and genes' = "[''ATM'', ''TP53'']" and enriched' = ?e
       and genes'' = ?g and enriched'' = "[]"]
  have miss: "(case hallmark_score_cache ?self of
      None \<Rightarrow> None
    | Some cache \<Rightarrow> cache (score_cache_key_of ?g ?e)) = None"
    by (simp only: analyzer.select_convs option.case)
  have p1: "mset [''ATM'', ''TP53''] = mset ?g"
    by (simp only: mset.simps add_mset_commute)
  have p2: "mset ?e = mset ?e"
    by (rule refl)
  have "sort ([] :: (string \<times> real) list) \<noteq> sort ?e"
    by (simp only: sort_key_simps insort_key.simps list.distinct not_False_eq_True)
  then have o1: "score_cache_key_of ?g [] \<noteq> score_cache_key_of ?g ?e"
    by (simp only: score_cache_key_of_def prod.inject simp_thms)
  have o2: "(case hallmark_score_cache ?self of
          None \<Rightarrow> None
        | Some cache \<Rightarrow> cache (score_cache_key_of ?g [])) = None"
    by (simp only: analyzer.select_convs option.case)
  have "calculate_hallmark_scores ?self ?c ?g ?e
          = (compute_hallmark_scores (normalizer_counts ?self) (hallmark_genes_table ?self)
               ?c ?g ?e,
             ?self\<lparr>hallmark_score_cache :=
                    Some ((case hallmark_score_cache ?self of
                             None \<Rightarrow> Map.empty
                           | Some cache \<Rightarrow> cache)
                          (score_cache_key_of ?g ?e \<mapsto>
                             compute_hallmark_scores (normalizer_counts ?self)
                               (hallmark_genes_table ?self) ?c ?g ?e))\<rparr>)"
    using t [THEN conjunct2, THEN conjunct1] miss by (rule mp)
  then have first_call: "fst (calculate_hallmark_scores ?self ?c ?g ?e)
       = compute_hallmark_scores [] [(''Genomic instability'', [''TP53'', ''ATM''])] ?c ?g ?e"
    by (simp only: fst_conv analyzer.select_convs)
  have "calculate_hallmark_scores (snd (calculate_hallmark_scores ?self ?c ?g ?e))
            ?c' [''ATM'', ''TP53''] ?e
          = (fst (calculate_hallmark_scores ?self ?c ?g ?e),
             snd (calculate_hallmark_scores ?self ?c ?g ?e))"
    using t [THEN conjunct2, THEN conjunct2, THEN conjunct1] conjI [OF p1 p2] by (rule mp)
  then have hit: "fst (calculate_hallmark_scores (snd (calculate_hallmark_scores ?self ?c ?g ?e))
                    ?c' [''ATM'', ''TP53''] ?e)
       = compute_hallmark_scores [] [(''Genomic instability'', [''TP53'', ''ATM''])] ?c ?g ?e"
    by (simp only: fst_conv first_call)
  have "fst (calculate_hallmark_scores
                    (snd (calculate_hallmark_scores ?self ?c ?g ?e)) ?c' ?g [])
       = compute_hallmark_scores (normalizer_counts ?self) (hallmark_genes_table ?self)
           ?c' ?g []"
    using t [THEN conjunct2, THEN conjunct2, THEN conjunct2] conjI [OF o1 o2] by (rule mp)
  then have other_call: "fst (calculate_hallmark_scores
                    (snd (calculate_hallmark_scores ?self ?c ?g ?e)) ?c' ?g [])
       = compute_hallmark_scores [] [(''Genomic instability'', [''TP53'', ''ATM''])] ?c' ?g []"
    by (simp only: analyzer.select_convs)
  show ?thesis
    by (intro conjI)
       (rule miss, rule p1, rule p2, rule o1, rule o2, rule first_call, rule hit,
        rule other_call)
qed

section \<open>Properties of the hallmark classifier\<close>

text \<open>
  C3. The claim is that a cached classification that is not a list of strings is purged,
  treated as a cache miss and recomputed, and that no error propagates. On the code the
  purge is the call of a method that the cache does not have: with the cached value
  \<^verbatim>\<open>[1]\<close> for the pathway, \<^verbatim>\<open>analyze_pathway\<close> raises \<^verbatim>\<open>AttributeError\<close>, the entry stays
  in the cache and the oracle's answer is not used.
\<close>

theorem analyze_pathway_malformed_entry_raises:
  "analyze_pathway
     (Some \<lparr>ttl = 86400,
            files = [(md5_hexdigest ''gpt4_pathway_analysis_DNA Repair (GO:0006281)'',
                      Entry (Some 0) (Some (JArr [JNum 1])))],
            memory_cache = None\<rparr>)
     60 (\<lambda>pathway. OracleJson (JArr [JStr ''Genomic_instability'']))
     ''DNA Repair (GO:0006281)''
   = (Inl AttributeError,
      Some \<lparr>ttl = 86400,
            files = [(md5_hexdigest ''gpt4_pathway_analysis_DNA Repair (GO:0006281)'',
                      Entry (Some 0) (Some (JArr [JNum 1])))],
            memory_cache = None\<rparr>)"
  by (simp add: analyze_pathway_def cache_get_def INFINITE_TTL_def value_or_none_def)

section \<open>Properties of the association fetcher\<close>

text \<open>
  C5. The claim is that the cache holds the maximal fetched gene set and is truncated
  only when read, so that a later call with a larger \<^verbatim>\<open>max_targets\<close> gets a longer prefix.
  On the code the key is shared between all values of \<^verbatim>\<open>max_targets\<close>, but the stored
  value is the result already truncated: after a call with \<^verbatim>\<open>max_targets = 1\<close> that
  fetched two genes and stored one, the call with \<^verbatim>\<open>max_targets = 2\<close> returns that one.
\<close>

theorem get_disease_targets_stale_truncation:
  "get_disease_targets 2 (Some \<lparr>ttl = 86400, files = [], memory_cache = None\<rparr>) 3 0
       (\<lambda>score_threshold. ''0.0'')
       (\<lambda>requests page. if page = 0 then Page [(''TP53'', 1), (''ATM'', 1)] 2 else Page [] 2)
       ''EFO_0000249'' 1 0
     = Some (Inr (JArr [JStr ''TP53'']),
             Some \<lparr>ttl = 86400,
                   files = [(md5_hexdigest ''ot_disease_targets_EFO_0000249_score0.0'',
                             Entry (Some 0) (Some (JArr [JStr ''TP53''])))],
                   memory_cache = None\<rparr>)
   \<and> get_disease_targets 2
       (Some \<lparr>ttl = 86400,
             files = [(md5_hexdigest ''ot_disease_targets_EFO_0000249_score0.0'',
                       Entry (Some 0) (Some (JArr [JStr ''TP53''])))],
             memory_cache = None\<rparr>) 3 10
       (\<lambda>score_threshold. ''0.0'')
       (\<lambda>requests page. if page = 0 then Page [(''TP53'', 1), (''ATM'', 1)] 2 else Page [] 2)
       ''EFO_0000249'' 2 0
     = Some (Inr (JArr [JStr ''TP53'']),
             Some \<lparr>ttl = 86400,
                   files = [(md5_hexdigest ''ot_disease_targets_EFO_0000249_score0.0'',
                             Entry (Some 0) (Some (JArr [JStr ''TP53''])))],
                   memory_cache = None\<rparr>)"
  by (simp add: get_disease_targets_def fetch_disease_targets_def disease_targets_cache_key_def
        cache_get_def cache_set_def INFINITE_TTL_def value_or_none_def py_slice_to_def
        page_size_def numeral_2_eq_2 numeral_3_eq_3 Let_def)

text \<open>
  A service with no rows for the disease: the inner loop is left by \<^verbatim>\<open>break\<close> with
  nothing added, so the outer loop repeats the same request for ever.
\<close>

lemma fetch_pages_empty_service_never_ends:
  "fetch_pages fuel (\<lambda>requests page. Page [] 0) 0 3 1 requests 0 [] = None"
  by (induction fuel arbitrary: requests) (simp_all add: numeral_3_eq_3 page_size_def)

text \<open>
  C6. The claim is that the pagination loop ends for every service and that each row
  contributes at most once. On the code the \<^verbatim>\<open>break\<close> at the last page leaves the retry
  loop only: with one row in the service and \<^verbatim>\<open>max_targets = 2\<close> the same page is fetched
  twice and the gene is returned twice; with no row at all the call does not return,
  whatever the bound on the number of iterations.
\<close>

theorem get_disease_targets_repeats_last_page:
  "get_disease_targets 3 None 3 0 (\<lambda>score_threshold. ''0.0'')
       (\<lambda>requests page. Page [(''TP53'', 1)] 1) ''EFO_0000249'' 2 0
     = Some (Inr (JArr [JStr ''TP53'', JStr ''TP53'']), None)
   \<and> (\<forall>fuel. get_disease_targets fuel None 3 0 (\<lambda>score_threshold. ''0.0'')
                (\<lambda>requests page. Page [] 0) ''EFO_0000249'' 1 0 = None)"
proof
  show "get_disease_targets 3 None 3 0 (\<lambda>score_threshold. ''0.0'')
       (\<lambda>requests page. Page [(''TP53'', 1)] 1) ''EFO_0000249'' 2 0
     = Some (Inr (JArr [JStr ''TP53'', JStr ''TP53'']), None)"
    by (simp add: get_disease_targets_def fetch_disease_targets_def py_slice_to_def
          page_size_def numeral_3_eq_3 numeral_2_eq_2)
  show "\<forall>fuel. get_disease_targets fuel None 3 0 (\<lambda>score_threshold. ''0.0'')
                (\<lambda>requests page. Page [] 0) ''EFO_0000249'' 1 0 = None"
    by (simp add: get_disease_targets_def fetch_disease_targets_def
          fetch_pages_empty_service_never_ends)
qed

section \<open>Properties of the lookup cache\<close>

text \<open>
  Without an in-memory table, \<^verbatim>\<open>Cache.get\<close> follows the TTL rule: the stored value is
  returned when the TTL is infinite or the age is below it, and nothing otherwise.
\<close>

lemma cache_get_file:
  assumes "memory_cache self = None"
    and "map_of (files self) (md5_hexdigest key) = Some (Entry (Some t) (Some v))"
  shows "cache_get self now key =
           (if ttl self = INFINITE_TTL \<or> now - t < real_of_int (ttl self) then v else JNull)"
  using assms by (simp add: cache_get_def value_or_none_def)

text \<open>
  C9. The claim is that \<^verbatim>\<open>Cache.get\<close> returns a stored value exactly while its age is
  below the TTL. On the code an entry that \<^verbatim>\<open>preload_cache\<close> has copied to the in-memory
  table is returned without any check of its age: written at time 0 with a TTL of 100
  seconds and preloaded at time 50, it is still returned at time 200, where the read of
  the file alone returns nothing.
\<close>

theorem cache_get_serves_expired_preloaded_entry:
  "cache_get
     (snd (preload_cache
             \<lparr>ttl = 100,
              files = [(md5_hexdigest ''ot_disease_targets_EFO_0000249_score0.0'',
                        Entry (Some 0) (Some (JArr [JStr ''TP53''])))],
              memory_cache = None\<rparr> 50))
     200 ''ot_disease_targets_EFO_0000249_score0.0''
   = JArr [JStr ''TP53'']
   \<and> cache_get
       \<lparr>ttl = 100,
        files = [(md5_hexdigest ''ot_disease_targets_EFO_0000249_score0.0'',
                  Entry (Some 0) (Some (JArr [JStr ''TP53''])))],
        memory_cache = None\<rparr>
       200 ''ot_disease_targets_EFO_0000249_score0.0''
     = JNull"
  by (simp add: preload_cache_def preload_entry_def List.map_filter_simps cache_get_def
        INFINITE_TTL_def value_or_none_def)

section \<open>The association fetcher and an empty cached result\<close>

text \<open>
  C10. When the value cached for a disease and threshold is the empty list,
  \<^verbatim>\<open>get_disease_targets\<close> behaves as on a cache miss: it runs the paginated fetch and
  stores its result, and what it returns is what the fetch returns without any cache.
\<close>

theorem empty_cached_targets_refetched:
  assumes "cache_get c now (disease_targets_cache_key fmt efo_id score_threshold) = JArr []"
  shows "get_disease_targets fuel (Some c) max_retries now fmt svc efo_id max_targets
           score_threshold
         = fetch_disease_targets fuel (Some c) max_retries now fmt svc efo_id max_targets
             score_threshold
       \<and> map_option fst
           (get_disease_targets fuel (Some c) max_retries now fmt svc efo_id max_targets
              score_threshold)
         = map_option fst
             (fetch_disease_targets fuel None max_retries now fmt svc efo_id max_targets
                score_threshold)"
  using assms
  by (simp add: get_disease_targets_def fetch_disease_targets_def Let_def split: option.splits)

theorem empty_cached_targets_refetched_witness:
  "cache_get
     \<lparr>ttl = 86400,
      files = [(md5_hexdigest ''ot_disease_targets_EFO_0000249_score0.0'',
                Entry (Some 0) (Some (JArr [])))],
      memory_cache = None\<rparr>
     10 (disease_targets_cache_key (\<lambda>score_threshold. ''0.0'') ''EFO_0000249'' 0)
   = JArr []
   \<and> get_disease_targets 2
       (Some \<lparr>ttl = 86400,
             files = [(md5_hexdigest ''ot_disease_targets_EFO_0000249_score0.0'',
                       Entry (Some 0) (Some (JArr [])))],
             memory_cache = None\<rparr>)
       3 10 (\<lambda>score_threshold. ''0.0'') (\<lambda>requests page. Page [(''TP53'', 1)] 1)
       ''EFO_0000249'' 1 0
     = Some (Inr (JArr [JStr ''TP53'']),
             Some \<lparr>ttl = 86400,
                   files = [(md5_hexdigest ''ot_disease_targets_EFO_0000249_score0.0'',
                             Entry (Some 10) (Some (JArr [JStr ''TP53''])))],
                   memory_cache = None\<rparr>)"
proof -
  let ?c = "\<lparr>ttl = 86400,
      files = [(md5_hexdigest ''ot_disease_targets_EFO_0000249_score0.0'',
                Entry (Some 0) (Some (JArr [])))],
      memory_cache = None\<rparr>"
  have h: "cache_get ?c 10
             (disease_targets_cache_key (\<lambda>score_threshold. ''0.0'') ''EFO_0000249'' 0)
           = JArr []"
    by (simp add: cache_get_def disease_targets_cache_key_def INFINITE_TTL_def
          value_or_none_def)
  show ?thesis
    using h empty_cached_targets_refetched [OF h, of 2 3 "\<lambda>requests page. Page [(''TP53'', 1)] 1" 1]
    by (simp add: fetch_disease_targets_def disease_targets_cache_key_def cache_set_def
          py_slice_to_def page_size_def numeral_2_eq_2 numeral_3_eq_3 Let_def)
qed


section \<open>Properties of the enrichment caller\<close>

text \<open>
  Rules that let the simplifier run the digest on a concrete message, and the digests of
  one gene list in two orders (they are the values that \<^verbatim>\<open>hashlib.md5\<close> gives).
\<close>

lemma chunks_of_numeral:
  "chunks_of k (numeral n) xs = take k xs # chunks_of k (pred_numeral n) (drop k xs)"
  by (simp add: numeral_eq_Suc)

lemma replicate_numeral_unfold: "replicate (numeral n) x = x # replicate (pred_numeral n) x"
  by (simp add: numeral_eq_Suc)

lemma bytes_le_numeral:
  "bytes_le (numeral n) x = x mod 256 # bytes_le (pred_numeral n) (x div 256)"
  using bytes_le.simps(2) [of "pred_numeral n" x] by (simp only: numeral_eq_Suc)

lemmas md5_eval = md5_hexdigest_def md5_digest_def md5_pad_def md5_block_def md5_step_def
  md5_table_def rotate_left_def hex_byte_def hex_digit_def chunks_of_numeral
  replicate_numeral_unfold bytes_le_numeral

lemma md5_TP53_ATM:
  "md5_hexdigest (genes_str_of [''TP53'', ''ATM'']) = ''bbdbafc6c58b2f9a9dba44aa7e20c1e8''"
  by (simp add: genes_str_of_def md5_eval)

lemma md5_ATM_TP53:
  "md5_hexdigest (genes_str_of [''ATM'', ''TP53'']) = ''974b7b4a3dfa81ac9a8bdd6abdce2cae''"
  by (simp add: genes_str_of_def md5_eval)

text \<open>
  C4. The claim is that two gene lists that are permutations of each other get the same
  cache key in \<^verbatim>\<open>add_list\<close>. The key is the digest of the list joined in the order
  given, and it differs for \<^verbatim>\<open>['TP53', 'ATM']\<close> and \<^verbatim>\<open>['ATM', 'TP53']\<close>.
\<close>

theorem add_list_cache_key_order_counterexample:
  "mset [''TP53'', ''ATM''] = mset [''ATM'', ''TP53'']
   \<and> add_list_cache_key [''TP53'', ''ATM''] ''NA'' \<noteq> add_list_cache_key [''ATM'', ''TP53''] ''NA''"
  by (simp add: add_list_cache_key_def md5_TP53_ATM md5_ATM_TP53)

text \<open>Reading back what \<^verbatim>\<open>Cache.set\<close> wrote, and the first attempt of a registration.\<close>

lemma map_of_dict_set: "map_of (dict_set k v d) = (map_of d)(k \<mapsto> v)"
  by (induction d) (auto simp: fun_eq_iff)

lemma cache_get_after_set:
  assumes "(case memory_cache c of
              None \<Rightarrow> None
            | Some memory \<Rightarrow> map_of memory (md5_hexdigest key)) = None"
    and "ttl c = INFINITE_TTL \<or> later - now < real_of_int (ttl c)"
  shows "cache_get (cache_set c now key v) later key = v"
  using assms
  by (cases "memory_cache c")
     (auto simp: cache_get_def cache_set_def map_of_dict_set value_or_none_def)

lemma add_list_attempts_first:
  assumes "0 < max_retries" and "post 0 = UserListId list_id"
  shows "add_list_attempts post max_retries 0 = Inr list_id"
  using assms by (cases max_retries) simp_all

text \<open>
  C4, as the code has it. The key is \<^verbatim>\<open>enrichr_add_list_\<close>, the MD5 digest of the
  gene list joined by newlines in the order given, an underscore and the description.
  Two gene lists that join to the same text, as the same genes in the same order do, get
  the same key and hit the same cache entry: after one is registered, \<^verbatim>\<open>add_list\<close> of
  the other within the TTL returns the stored list identifier without any request.
\<close>

theorem add_list_same_order_hits_cache:
  assumes same_text: "genes_str_of ys = genes_str_of xs"
    and no_memory: "(case memory_cache c of
             None \<Rightarrow> None
           | Some memory \<Rightarrow> map_of memory (md5_hexdigest (add_list_cache_key xs desc)))
          = None"
    and miss: "\<not> truthy (cache_get c now (add_list_cache_key xs desc))"
    and registered: "0 < max_retries" "post 0 = UserListId list_id" "truthy list_id"
    and fresh: "ttl c = INFINITE_TTL \<or> later - now < real_of_int (ttl c)"
  shows "add_list_cache_key xs desc
           = ''enrichr_add_list_'' @ md5_hexdigest (join [CHR 0x0A] xs) @ ''_'' @ desc
       \<and> add_list_cache_key ys desc = add_list_cache_key xs desc
       \<and> add_list (Some c) max_retries now post xs desc
           = (Inr list_id, Some (cache_set c now (add_list_cache_key xs desc) list_id))
       \<and> add_list (Some (cache_set c now (add_list_cache_key xs desc) list_id))
             max_retries' later post' ys desc
           = (Inr list_id, Some (cache_set c now (add_list_cache_key xs desc) list_id))"
proof (intro conjI)
  show "add_list_cache_key xs desc
           = ''enrichr_add_list_'' @ md5_hexdigest (join [CHR 0x0A] xs) @ ''_'' @ desc"
    by (simp add: add_list_cache_key_def genes_str_of_def)
  show keys: "add_list_cache_key ys desc = add_list_cache_key xs desc"
    using same_text by (simp add: add_list_cache_key_def)
  show "add_list (Some c) max_retries now post xs desc
           = (Inr list_id, Some (cache_set c now (add_list_cache_key xs desc) list_id))"
    using miss add_list_attempts_first [of max_retries post list_id] registered
    by (simp add: add_list_def)
  have "cache_get (cache_set c now (add_list_cache_key xs desc) list_id) later
          (add_list_cache_key xs desc) = list_id"
    using no_memory fresh by (rule cache_get_after_set)
  then show "add_list (Some (cache_set c now (add_list_cache_key xs desc) list_id))
             max_retries' later post' ys desc
           = (Inr list_id, Some (cache_set c now (add_list_cache_key xs desc) list_id))"
    using registered(3) by (simp add: add_list_def keys)
qed

theorem add_list_same_order_hits_cache_witness:
  "genes_str_of [''TP53'', ''ATM''] = genes_str_of [''TP53'', ''ATM'']
   \<and> (case memory_cache \<lparr>ttl = 86400, files = [], memory_cache = None\<rparr> of
        None \<Rightarrow> None
      | Some memory \<Rightarrow>
          map_of memory (md5_hexdigest (add_list_cache_key [''TP53'', ''ATM''] ''NA'')))
      = None
   \<and> \<not> truthy (cache_get \<lparr>ttl = 86400, files = [], memory_cache = None\<rparr> 0
                  (add_list_cache_key [''TP53'', ''ATM''] ''NA''))
   \<and> (0 :: nat) < 3
   \<and> (\<lambda>attempt :: nat. UserListId (JNum 12345)) 0 = UserListId (JNum 12345)
   \<and> truthy (JNum 12345)
   \<and> (10 :: real) - 0 < real_of_int 86400
   \<and> add_list (Some \<lparr>ttl = 86400, files = [], memory_cache = None\<rparr>) 3 0
        (\<lambda>attempt. UserListId (JNum 12345)) [''TP53'', ''ATM''] ''NA''
      = (Inr (JNum 12345),
         Some \<lparr>ttl = 86400,
               files = [(md5_hexdigest (add_list_cache_key [''TP53'', ''ATM''] ''NA''),
                         Entry (Some 0) (Some (JNum 12345)))],
               memory_cache = None\<rparr>)
   \<and> add_list
        (Some \<lparr>ttl = 86400,
               files = [(md5_hexdigest (add_list_cache_key [''TP53'', ''ATM''] ''NA''),
                         Entry (Some 0) (Some (JNum 12345)))],
               memory_cache = None\<rparr>)
        3 10 (\<lambda>attempt. PostFailed) [''TP53'', ''ATM''] ''NA''
      = (Inr (JNum 12345),
         Some \<lparr>ttl = 86400,
               files = [(md5_hexdigest (add_list_cache_key [''TP53'', ''ATM''] ''NA''),
                         Entry (Some 0) (Some (JNum 12345)))],
               memory_cache = None\<rparr>)"
proof -
  let ?c = "\<lparr>ttl = 86400, files = [], memory_cache = None\<rparr>"
  let ?xs = "[''TP53'', ''ATM'']"
  have a: "(case memory_cache ?c of
        None \<Rightarrow> None
      | Some memory \<Rightarrow> map_of memory (md5_hexdigest (add_list_cache_key ?xs ''NA'')))
      = None"
    by simp
  have b: "\<not> truthy (cache_get ?c 0 (add_list_cache_key ?xs ''NA''))"
    by (simp add: cache_get_def)
  have c: "(0 :: nat) < 3" by simp
  have d: "(\<lambda>attempt :: nat. UserListId (JNum 12345)) 0 = UserListId (JNum 12345)" by simp
  have e: "truthy (JNum 12345)" by simp
  have f: "ttl ?c = INFINITE_TTL \<or> (10 :: real) - 0 < real_of_int (ttl ?c)" by simp
  note t = add_list_same_order_hits_cache [OF refl a b c d e f, of "3" "\<lambda>attempt. PostFailed"]
  have first_call: "add_list (Some ?c) 3 0 (\<lambda>attempt. UserListId (JNum 12345)) ?xs ''NA''
      = (Inr (JNum 12345),
         Some \<lparr>ttl = 86400,
               files = [(md5_hexdigest (add_list_cache_key ?xs ''NA''),
                         Entry (Some 0) (Some (JNum 12345)))],
               memory_cache = None\<rparr>)"
    using t [THEN conjunct2, THEN conjunct2, THEN conjunct1]
    by (simp only: cache_set_def cache.simps dict_set.simps)
  have second_call: "add_list
        (Some \<lparr>ttl = 86400,
               files = [(md5_hexdigest (add_list_cache_key ?xs ''NA''),
                         Entry (Some 0) (Some (JNum 12345)))],
               memory_cache = None\<rparr>)
        3 10 (\<lambda>attempt. PostFailed) ?xs ''NA''
      = (Inr (JNum 12345),
         Some \<lparr>ttl = 86400,
               files = [(md5_hexdigest (add_list_cache_key ?xs ''NA''),
                         Entry (Some 0) (Some (JNum 12345)))],
               memory_cache = None\<rparr>)"
    using t [THEN conjunct2, THEN conjunct2, THEN conjunct2]
    by (simp only: cache_set_def cache.simps dict_set.simps)
  show ?thesis
    using a b first_call second_call by simp
qed

end
